theory Spec2Isabelle
  imports Complex_Main
begin

section \<open>TrustNet 360: challenge registry, trust score and biometric sampler\<close>

text \<open>
  A shallow embedding of the three core classes of \<^verbatim>\<open>app.py\<close>:
  \<^verbatim>\<open>DBIEngine\<close>, \<^verbatim>\<open>BiometricProcessor\<close> and \<^verbatim>\<open>TrustCalculator\<close>.

  Conventions of the model:
  \<^item> a Python \<^verbatim>\<open>float\<close> is a \<^typ>\<open>real\<close> and arithmetic is exact; the update of
    the trust score and the rounding of the returned score are given a second time in IEEE
    double arithmetic (\<open>double_score\<close>), where the two differ;
  \<^item> every call of the \<^verbatim>\<open>random\<close> module consumes one raw draw, a natural number that
    is an argument of the model; \<^verbatim>\<open>time.time()\<close> is an argument as well;
  \<^item> mutation of \<^verbatim>\<open>self\<close> is explicit state passing: a method takes the object and
    returns the updated object together with its result.
\<close>

subsection \<open>Python values and the random module\<close>

datatype pyval =
    PBool bool
  | PFloat real
  | PStr string
  | PList "pyval list"
  | PDict "(string \<times> pyval) list"

type_synonym pydict = "(string \<times> pyval) list"

text \<open>
  \<^verbatim>\<open>random.random()\<close> returns \<open>k / 2^53\<close> for a 53-bit integer \<open>k\<close>;
  \<^verbatim>\<open>random.uniform(a, b)\<close> is \<^verbatim>\<open>a + (b - a) * random()\<close>;
  \<^verbatim>\<open>random.randint(a, b)\<close> is \<^verbatim>\<open>a + _randbelow(b - a + 1)\<close>;
  \<^verbatim>\<open>random.choice(seq)\<close> is \<^verbatim>\<open>seq[_randbelow(len(seq))]\<close>.
\<close>

definition py_random :: "nat \<Rightarrow> real" where
  "py_random k = real (k mod 2 ^ 53) / 2 ^ 53"

definition uniform :: "real \<Rightarrow> real \<Rightarrow> nat \<Rightarrow> real" where
  "uniform a b k = a + (b - a) * py_random k"

definition randbelow :: "nat \<Rightarrow> nat \<Rightarrow> nat" where
  "randbelow n k = k mod n"

definition randint :: "int \<Rightarrow> int \<Rightarrow> nat \<Rightarrow> int" where
  "randint a b k = a + int (randbelow (nat (b - a + 1)) k)"

text \<open>Only called on the non-empty literal lists of the source.\<close>

definition choice :: "'a list \<Rightarrow> nat \<Rightarrow> 'a" where
  "choice seq k = seq ! randbelow (length seq) k"

subsection \<open>Formatting: \<^verbatim>\<open>str\<close>, \<^verbatim>\<open>int\<close>, \<^verbatim>\<open>join\<close>, \<^verbatim>\<open>round\<close>\<close>

fun str_nat :: "nat \<Rightarrow> string" where
  "str_nat n =
     (if n < 10 then [''0123456789'' ! n]
      else str_nat (n div 10) @ [''0123456789'' ! (n mod 10)])"

definition str_int :: "int \<Rightarrow> string" where
  "str_int i = (if i < 0 then ''-'' @ str_nat (nat (- i)) else str_nat (nat i))"

text \<open>\<^verbatim>\<open>int(x)\<close> on a float truncates towards zero.\<close>

definition int_of_float :: "real \<Rightarrow> int" where
  "int_of_float x = (if 0 \<le> x then \<lfloor>x\<rfloor> else \<lceil>x\<rceil>)"

fun join :: "string \<Rightarrow> string list \<Rightarrow> string" where
  "join sep [] = []"
| "join sep [x] = x"
| "join sep (x # y # ys) = x @ sep @ join sep (y # ys)"

text \<open>
  \<^verbatim>\<open>round(x, ndigits)\<close> on a float rounds to the nearest multiple of
  \<open>10 ^ (- ndigits)\<close>, a tie going to the even neighbour.
\<close>

definition round_half_even :: "real \<Rightarrow> int" where
  "round_half_even x =
     (let f = \<lfloor>x\<rfloor>; d = x - of_int f
      in if d < 1 / 2 then f
         else if 1 / 2 < d then f + 1
         else if even f then f else f + 1)"

definition py_round :: "real \<Rightarrow> nat \<Rightarrow> real" where
  "py_round x ndigits = of_int (round_half_even (x * 10 ^ ndigits)) / 10 ^ ndigits"

subsection \<open>IEEE doubles\<close>

text \<open>\<^verbatim>\<open>int.bit_length()\<close>, and \<open>\<lfloor>log\<^sub>2 \<bar>x\<bar>\<rfloor>\<close> for \<open>x \<noteq> 0\<close>.\<close>

fun bit_length :: "nat \<Rightarrow> nat" where
  "bit_length n = (if n = 0 then 0 else Suc (bit_length (n div 2)))"

definition ilog2 :: "real \<Rightarrow> int" where
  "ilog2 x =
     (if 1 \<le> \<bar>x\<bar> then int (bit_length (nat \<lfloor>\<bar>x\<bar>\<rfloor>)) - 1
      else - int (bit_length (nat (\<lceil>1 / \<bar>x\<bar>\<rceil> - 1))))"

definition pow2 :: "int \<Rightarrow> real" where
  "pow2 e = (if 0 \<le> e then 2 ^ nat e else 1 / 2 ^ nat (- e))"

text \<open>
  The double nearest to a real: 53 significant bits, a tie going to the even significand.
  Overflow and subnormal numbers are left out: the scores and samples of this program are
  far from both.
\<close>

definition round_double :: "real \<Rightarrow> real" where
  "round_double x =
     (if x = 0 then 0
      else let q = pow2 (ilog2 x - 52) in of_int (round_half_even (x / q)) * q)"

text \<open>\<^verbatim>\<open>a + (b - a) * random()\<close> with each operation rounded; \<open>k / 2^53\<close> is a double.\<close>

definition double_uniform :: "real \<Rightarrow> real \<Rightarrow> nat \<Rightarrow> real" where
  "double_uniform a b k = round_double (a + round_double (round_double (b - a) * py_random k))"

subsection \<open>Data classes\<close>

datatype ChallengeType =
    VISUAL_AUDIO
  | COGNITIVE_MOTOR
  | EMOTIONAL_RESPONSE
  | ENVIRONMENTAL_CHECK

text \<open>\<^verbatim>\<open>list(ChallengeType)\<close>: the members in definition order.\<close>

definition ChallengeType_members :: "ChallengeType list" where
  "ChallengeType_members =
     [VISUAL_AUDIO, COGNITIVE_MOTOR, EMOTIONAL_RESPONSE, ENVIRONMENTAL_CHECK]"

fun ChallengeType_value :: "ChallengeType \<Rightarrow> string" where
  "ChallengeType_value VISUAL_AUDIO = ''visual_audio''"
| "ChallengeType_value COGNITIVE_MOTOR = ''cognitive_motor''"
| "ChallengeType_value EMOTIONAL_RESPONSE = ''emotional_response''"
| "ChallengeType_value ENVIRONMENTAL_CHECK = ''environmental_check''"

record DBIChallenge =
  challenge_id :: string
  challenge_type :: ChallengeType
  instruction :: string
  expected_duration :: real
  validation_criteria :: pydict
  timestamp :: real

record BiometricResult =
  heart_rate :: real
  face_detected :: bool
  confidence :: real
  deepfake_probability :: real
  liveness_score :: real
  timestamp :: real

record TrustScore =
  current_score :: real
  trust_level :: string
  risk_factors :: "string list"
  confidence :: real
  recommended_action :: string
  timestamp :: real

subsection \<open>\<^verbatim>\<open>DBIEngine\<close>\<close>

record DBIEngine =
  active_challenges :: "string \<rightharpoonup> DBIChallenge"
  challenge_history :: "DBIChallenge list"

definition DBIEngine_init :: DBIEngine where
  "DBIEngine_init = \<lparr>active_challenges = Map.empty, challenge_history = []\<rparr>"

text \<open>
  The draws and clock readings of one \<^verbatim>\<open>generate_challenge\<close> call, in the order
  the source makes them: the challenge type, the clock and the suffix of the id, the
  parameters of the instruction (three numbers and a direction; a phrase and a gesture;
  or an action), the duration and the time stamp.
\<close>

record challenge_draws =
  type_draw :: nat
  id_time :: real
  id_draw :: nat
  number_draw1 :: nat
  number_draw2 :: nat
  number_draw3 :: nat
  first_draw :: nat
  second_draw :: nat
  duration_draw :: nat
  stamp_time :: real

text \<open>Draws that all come from one raw value \<open>k\<close>, at clock reading \<open>t\<close>.\<close>

definition draws_of :: "real \<Rightarrow> nat \<Rightarrow> challenge_draws" where
  "draws_of t k =
     \<lparr>type_draw = k, id_time = t, id_draw = k,
      number_draw1 = k, number_draw2 = k, number_draw3 = k,
      first_draw = k, second_draw = k, duration_draw = k, stamp_time = t\<rparr>"

definition new_challenge_id :: "challenge_draws \<Rightarrow> string" where
  "new_challenge_id d =
     ''dbi_'' @ str_int (int_of_float (id_time d)) @ ''_'' @ str_int (randint 1000 9999 (id_draw d))"

definition new_instruction :: "ChallengeType \<Rightarrow> challenge_draws \<Rightarrow> string" where
  "new_instruction ty d =
     (if ty = VISUAL_AUDIO then
        let numbers = map (randint 10 99) [number_draw1 d, number_draw2 d, number_draw3 d];
            directions = [''top-left'', ''top-right'', ''bottom-left'', ''bottom-right''];
            direction = choice directions (first_draw d)
        in ''Say the numbers '' @ [CHR 0x27] @ join ''-'' (map str_int numbers) @ [CHR 0x27]
           @ '' while looking at the '' @ direction @ '' corner''
      else if ty = COGNITIVE_MOTOR then
        let phrases = [''Bank of Baroda'', ''TrustNet 360'', ''Secure Banking''];
            gestures = [''touch your nose'', ''raise your right hand'', ''nod twice''];
            phrase = choice phrases (first_draw d);
            gesture = choice gestures (second_draw d)
        in ''Type '' @ [CHR 0x27] @ phrase @ [CHR 0x27] @ '' then '' @ gesture
      else if ty = EMOTIONAL_RESPONSE then
        ''Look naturally at the screen. A surprise image will appear briefly.''
      else
        let actions = [''Turn your head slowly left and right'',
                       ''Move slightly closer to the camera'',
                       ''Ensure good lighting on your face''];
            action = choice actions (first_draw d)
        in action @ '' for environmental verification'')"

definition generate_challenge :: "DBIEngine \<Rightarrow> challenge_draws \<Rightarrow> DBIEngine \<times> DBIChallenge" where
  "generate_challenge self d =
     (let ty = choice ChallengeType_members (type_draw d);
          cid = new_challenge_id d;
          challenge = \<lparr>challenge_id = cid,
                       challenge_type = ty,
                       instruction = new_instruction ty d,
                       expected_duration = uniform 6 15 (duration_draw d),
                       validation_criteria = [(''generated'', PBool True)],
                       DBIChallenge.timestamp = stamp_time d\<rparr>
      in (self\<lparr>active_challenges := (active_challenges self)(cid \<mapsto> challenge),
                challenge_history := challenge_history self @ [challenge]\<rparr>,
          challenge))"

text \<open>The dictionary returned for an id that is not in \<^verbatim>\<open>active_challenges\<close>.\<close>

definition not_found_result :: pydict where
  "not_found_result =
     [(''valid'', PBool False), (''error'', PStr ''Challenge not found''), (''confidence'', PFloat 0)]"

text \<open>
  \<^verbatim>\<open>validate_challenge_response\<close> is a coroutine without any \<^verbatim>\<open>await\<close>: one call
  runs from its first line to its \<^verbatim>\<open>return\<close> without suspending. Its two draws are
  \<open>k1\<close> for the confidence and \<open>k2\<close> for the outcome.
\<close>

definition validate_challenge_response ::
    "DBIEngine \<Rightarrow> string \<Rightarrow> pydict \<Rightarrow> nat \<Rightarrow> nat \<Rightarrow> DBIEngine \<times> pydict" where
  "validate_challenge_response self cid response_data k1 k2 =
     (case active_challenges self cid of
        None \<Rightarrow> (self, not_found_result)
      | Some challenge \<Rightarrow>
          let confidence = uniform 0.8 0.95 k1;
              valid = (0.1 < py_random k2);
              result =
                [(''valid'', PBool valid),
                 (''confidence'', PFloat confidence),
                 (''challenge_type'', PStr (ChallengeType_value (challenge_type challenge))),
                 (''biometric_signals'',
                    PDict [(''voice_detected'', PBool True),
                           (''face_movement'', PBool True),
                           (''timing_natural'', PBool True)]),
                 (''anomalies'',
                    PList (if valid then [] else [PStr ''Suspicious timing pattern'']))]
          in (self\<lparr>active_challenges := (active_challenges self)(cid := None)\<rparr>, result))"

text \<open>A history of calls on one engine, run one after the other.\<close>

datatype engine_call =
    Generate challenge_draws
  | Validate string pydict nat nat

fun engine_step :: "DBIEngine \<Rightarrow> engine_call \<Rightarrow> DBIEngine" where
  "engine_step self (Generate d) = fst (generate_challenge self d)"
| "engine_step self (Validate cid response_data k1 k2) =
     fst (validate_challenge_response self cid response_data k1 k2)"

fun engine_run :: "DBIEngine \<Rightarrow> engine_call list \<Rightarrow> DBIEngine" where
  "engine_run self [] = self"
| "engine_run self (c # cs) = engine_run (engine_step self c) cs"

fun issues :: "string \<Rightarrow> engine_call \<Rightarrow> bool" where
  "issues cid (Generate d) = (new_challenge_id d = cid)"
| "issues cid (Validate cid' response_data k1 k2) = False"

fun validates :: "string \<Rightarrow> engine_call \<Rightarrow> bool" where
  "validates cid (Generate d) = False"
| "validates cid (Validate cid' response_data k1 k2) = (cid' = cid)"

text \<open>
  Concurrent validations of one id. The route awaits the coroutine directly and the
  coroutine never suspends, so on the event loop \<open>N\<close> concurrent calls run as \<open>N\<close> whole
  calls, one after the other, in the order the scheduler picks: a schedule is a list of
  calls, each with its payload and its two draws.
\<close>

fun validate_all ::
    "DBIEngine \<Rightarrow> string \<Rightarrow> (pydict \<times> nat \<times> nat) list \<Rightarrow> DBIEngine \<times> pydict list" where
  "validate_all self cid [] = (self, [])"
| "validate_all self cid ((response_data, k1, k2) # calls) =
     (let (self', result) = validate_challenge_response self cid response_data k1 k2;
          (self'', results) = validate_all self' cid calls
      in (self'', result # results))"

subsection \<open>Exceptions inside a \<^verbatim>\<open>try\<close> block\<close>

text \<open>
  \<^verbatim>\<open>process_frame\<close> and \<^verbatim>\<open>calculate_trust_score\<close> wrap their body in
  \<^verbatim>\<open>try: ... except Exception\<close>. To reach the handler, each call the body makes to
  the random module or the clock either returns its value (\<open>Inr\<close>) or raises
  (\<open>Inl\<close>); the clock reading of the handler itself is a plain value.
\<close>

datatype exn = Exception string

type_synonym 'a outcome = "exn + 'a"

subsection \<open>\<^verbatim>\<open>BiometricProcessor\<close>\<close>

record BiometricProcessor =
  face_cascade :: "string option"
  demo_mode :: bool

record frame_env =
  heart_rate_draw :: "nat outcome"
  confidence_draw :: "nat outcome"
  deepfake_draw :: "nat outcome"
  liveness_draw :: "nat outcome"
  frame_time :: "real outcome"
  frame_handler_time :: real

definition process_frame_body :: "frame_env \<Rightarrow> BiometricResult outcome" where
  "process_frame_body env =
     (case heart_rate_draw env of Inl e \<Rightarrow> Inl e | Inr k1 \<Rightarrow>
     (case confidence_draw env of Inl e \<Rightarrow> Inl e | Inr k2 \<Rightarrow>
     (case deepfake_draw env of Inl e \<Rightarrow> Inl e | Inr k3 \<Rightarrow>
     (case liveness_draw env of Inl e \<Rightarrow> Inl e | Inr k4 \<Rightarrow>
     (case frame_time env of Inl e \<Rightarrow> Inl e | Inr t \<Rightarrow>
        Inr \<lparr>heart_rate = uniform 68 85 k1,
             face_detected = True,
             BiometricResult.confidence = uniform 0.85 0.95 k2,
             deepfake_probability = uniform 0.05 0.15 k3,
             liveness_score = uniform 0.88 0.96 k4,
             BiometricResult.timestamp = t\<rparr>)))))"

definition process_frame :: "BiometricProcessor \<Rightarrow> frame_env \<Rightarrow> string \<Rightarrow> BiometricResult" where
  "process_frame self env frame_data =
     (case process_frame_body env of
        Inr result \<Rightarrow> result
      | Inl e \<Rightarrow>
          \<lparr>heart_rate = 75.0,
           face_detected = True,
           BiometricResult.confidence = 0.8,
           deepfake_probability = 0.1,
           liveness_score = 0.9,
           BiometricResult.timestamp = frame_handler_time env\<rparr>)"

subsection \<open>\<^verbatim>\<open>TrustCalculator\<close>\<close>

record TrustCalculator =
  current_score :: real
  score_history :: "TrustScore list"

definition TrustCalculator_init :: TrustCalculator where
  "TrustCalculator_init = \<lparr>TrustCalculator.current_score = 75.0, score_history = []\<rparr>"

record trust_env =
  base_draw :: "nat outcome"
  device_draw :: "nat outcome"
  trust_confidence_draw :: "nat outcome"
  trust_time :: "real outcome"
  trust_handler_time :: real

text \<open>
  The body of the \<^verbatim>\<open>try\<close> block. The assignment to \<^verbatim>\<open>self.current_score\<close>
  is its second statement, so an exception raised later leaves the new score in place.
\<close>

definition calculate_trust_score_body ::
    "TrustCalculator \<Rightarrow> trust_env \<Rightarrow> TrustCalculator \<times> TrustScore outcome" where
  "calculate_trust_score_body self env =
     (case base_draw env of Inl e \<Rightarrow> (self, Inl e) | Inr k1 \<Rightarrow>
     (let base_score = uniform 70 90 k1;
          self1 = self\<lparr>TrustCalculator.current_score :=
                          0.7 * TrustCalculator.current_score self + 0.3 * base_score\<rparr>;
          score = TrustCalculator.current_score self1;
          (trust_level, recommended_action) =
            (if 85 \<le> score then (''HIGH'', ''ALLOW_SEAMLESS'')
             else if 65 \<le> score then (''MEDIUM'', ''ALLOW_WITH_MONITORING'')
             else (''LOW'', ''REQUIRE_ADDITIONAL_VERIFICATION''));
          risk_factors0 =
            (if score < 80 then [''Behavioral pattern variation detected''] else [])
      in
     (case device_draw env of Inl e \<Rightarrow> (self1, Inl e) | Inr k2 \<Rightarrow>
     (let risk_factors1 =
            (if py_random k2 < 0.2 then risk_factors0 @ [''New device fingerprint'']
             else risk_factors0);
          risk_factors2 =
            (if risk_factors1 = [] then risk_factors1 @ [''All metrics within normal range'']
             else risk_factors1)
      in
     (case trust_confidence_draw env of Inl e \<Rightarrow> (self1, Inl e) | Inr k3 \<Rightarrow>
     (case trust_time env of Inl e \<Rightarrow> (self1, Inl e) | Inr t \<Rightarrow>
     (let result = \<lparr>TrustScore.current_score = py_round score 1,
                    trust_level = trust_level,
                    risk_factors = risk_factors2,
                    TrustScore.confidence = uniform 0.8 0.95 k3,
                    recommended_action = recommended_action,
                    TrustScore.timestamp = t\<rparr>;
          history = score_history self1 @ [result];
          history' = (if 100 < length history then tl history else history)
      in (self1\<lparr>score_history := history'\<rparr>, Inr result))))))))"

definition fallback_TrustScore :: "real \<Rightarrow> TrustScore" where
  "fallback_TrustScore t =
     \<lparr>TrustScore.current_score = 50.0,
      trust_level = ''MEDIUM'',
      risk_factors = [''System error''],
      TrustScore.confidence = 0.0,
      recommended_action = ''REQUIRE_MANUAL_REVIEW'',
      TrustScore.timestamp = t\<rparr>"

definition calculate_trust_score ::
    "TrustCalculator \<Rightarrow> trust_env \<Rightarrow> pydict \<Rightarrow> TrustCalculator \<times> TrustScore" where
  "calculate_trust_score self env behavioral_data =
     (case calculate_trust_score_body self env of
        (self', Inr result) \<Rightarrow> (self', result)
      | (self', Inl e) \<Rightarrow> (self', fallback_TrustScore (trust_handler_time env)))"

text \<open>Some call of the body raises; and an environment in which none does.\<close>

definition trust_env_raises :: "trust_env \<Rightarrow> bool" where
  "trust_env_raises env =
     (isl (base_draw env) \<or> isl (device_draw env) \<or> isl (trust_confidence_draw env)
      \<or> isl (trust_time env))"

definition normal_env :: "nat \<Rightarrow> nat \<Rightarrow> nat \<Rightarrow> real \<Rightarrow> trust_env" where
  "normal_env k1 k2 k3 t =
     \<lparr>base_draw = Inr k1, device_draw = Inr k2, trust_confidence_draw = Inr k3,
      trust_time = Inr t, trust_handler_time = t\<rparr>"

text \<open>An environment whose second call (the draw for the device check) raises.\<close>

definition faulty_env :: trust_env where
  "faulty_env = \<lparr>base_draw = Inr 0, device_draw = Inl (Exception ''fault''),
      trust_confidence_draw = Inr 0, trust_time = Inr 0, trust_handler_time = 1\<rparr>"

subsection \<open>The score in double arithmetic\<close>

text \<open>
  The three statements of \<^verbatim>\<open>calculate_trust_score\<close> that compute the score, as the
  interpreter runs them on doubles: the sample, the update of \<^verbatim>\<open>self.current_score\<close>
  (the literals \<^verbatim>\<open>0.7\<close> and \<^verbatim>\<open>0.3\<close> are doubles, each product and the sum is
  rounded) and \<^verbatim>\<open>round(self.current_score, 1)\<close>, which rounds the exact value of the
  stored double to one decimal and returns the nearest double. The result is the pair of
  the stored score and the returned score.
\<close>

definition double_score :: "real \<Rightarrow> nat \<Rightarrow> real \<times> real" where
  "double_score p k =
     (let base_score = double_uniform 70 90 k;
          score = round_double (round_double (round_double 0.7 * p)
                                + round_double (round_double 0.3 * base_score))
      in (score, round_double (py_round score 1)))"

section \<open>Auxiliary facts\<close>

subsection \<open>Draws stay in their interval\<close>

lemma py_random_bounds: "0 \<le> py_random k \<and> py_random k < 1"
proof -
  have "k mod 2 ^ 53 < (2 ^ 53 :: nat)" by simp
  then have "real (k mod 2 ^ 53) < real (2 ^ 53 :: nat)" by (rule iffD2 [OF of_nat_less_iff])
  then show ?thesis by (simp add: py_random_def)
qed

lemma uniform_bounds: "a \<le> b \<Longrightarrow> a \<le> uniform a b k \<and> uniform a b k \<le> b"
proof -
  assume ab: "a \<le> b"
  have r: "0 \<le> py_random k" "py_random k \<le> 1" using py_random_bounds [of k] by simp_all
  have "0 \<le> (b - a) * py_random k" using ab r by simp
  moreover have "(b - a) * py_random k \<le> (b - a) * 1"
    using ab r by (intro mult_left_mono) simp_all
  ultimately show ?thesis by (simp add: uniform_def)
qed

subsection \<open>Rounding to one decimal moves a value by at most 0.05\<close>

lemma round_half_even_near: "\<bar>of_int (round_half_even y) - y\<bar> \<le> 1 / 2"
proof -
  have "of_int \<lfloor>y\<rfloor> \<le> y" "y < of_int \<lfloor>y\<rfloor> + 1" by linarith+
  then show ?thesis
    by (auto simp: round_half_even_def Let_def)
qed

lemma py_round_1_near: "\<bar>py_round x 1 - x\<bar> \<le> 0.05"
proof -
  have "\<bar>of_int (round_half_even (x * 10)) - x * 10\<bar> \<le> 1 / 2"
    by (rule round_half_even_near)
  then show ?thesis
    by (simp add: py_round_def abs_le_iff field_simps)
qed

subsection \<open>The two branches of \<^verbatim>\<open>validate_challenge_response\<close>\<close>

lemma validate_missing:
  "active_challenges e cid = None \<Longrightarrow>
   validate_challenge_response e cid rd k1 k2 = (e, not_found_result)"
  by (simp add: validate_challenge_response_def)

lemma validate_found_state:
  "active_challenges e cid = Some c \<Longrightarrow>
   fst (validate_challenge_response e cid rd k1 k2) =
     e\<lparr>active_challenges := (active_challenges e)(cid := None)\<rparr>"
  by (simp add: validate_challenge_response_def Let_def)

lemma validate_found_result:
  "active_challenges e cid = Some c \<Longrightarrow>
   snd (validate_challenge_response e cid rd k1 k2) =
     [(''valid'', PBool (0.1 < py_random k2)),
      (''confidence'', PFloat (uniform 0.8 0.95 k1)),
      (''challenge_type'', PStr (ChallengeType_value (challenge_type c))),
      (''biometric_signals'',
         PDict [(''voice_detected'', PBool True), (''face_movement'', PBool True),
                (''timing_natural'', PBool True)]),
      (''anomalies'',
         PList (if 0.1 < py_random k2 then [] else [PStr ''Suspicious timing pattern'']))]"
  by (simp add: validate_challenge_response_def Let_def)

lemma validate_removes:
  "active_challenges (fst (validate_challenge_response e cid rd k1 k2)) cid = None"
  by (cases "active_challenges e cid") (simp_all add: validate_missing validate_found_state)

lemma validate_other:
  "cid' \<noteq> cid \<Longrightarrow>
   active_challenges (fst (validate_challenge_response e cid' rd k1 k2)) cid = active_challenges e cid"
  by (cases "active_challenges e cid'") (simp_all add: validate_missing validate_found_state)

subsection \<open>Issuing, and what a history of calls preserves\<close>

lemma generate_active:
  "active_challenges (fst (generate_challenge e d)) cid =
     (if cid = new_challenge_id d then Some (snd (generate_challenge e d)) else active_challenges e cid)"
  by (simp add: generate_challenge_def Let_def)

lemma generate_id: "challenge_id (snd (generate_challenge e d)) = new_challenge_id d"
  by (simp add: generate_challenge_def Let_def)

lemma step_keeps_absent:
  "active_challenges e cid = None \<Longrightarrow> \<not> issues cid call \<Longrightarrow>
   active_challenges (engine_step e call) cid = None"
proof (cases call)
  case (Generate d)
  assume "active_challenges e cid = None" "\<not> issues cid call"
  with Generate show ?thesis by (auto simp: generate_active)
next
  case (Validate cid' rd k1 k2)
  assume a: "active_challenges e cid = None"
  show ?thesis
  proof (cases "cid' = cid")
    case True
    with Validate show ?thesis by (simp add: validate_removes)
  next
    case False
    with Validate a show ?thesis by (simp add: validate_other)
  qed
qed

lemma run_keeps_absent:
  "active_challenges e cid = None \<Longrightarrow> \<forall>call\<in>set calls. \<not> issues cid call \<Longrightarrow>
   active_challenges (engine_run e calls) cid = None"
proof (induction calls arbitrary: e)
  case Nil
  then show ?case by simp
next
  case (Cons call calls)
  have "active_challenges (engine_step e call) cid = None"
    using Cons.prems by (intro step_keeps_absent) simp_all
  then show ?case using Cons by simp
qed

lemma step_keeps_present:
  "cid \<in> dom (active_challenges e) \<Longrightarrow> \<not> validates cid call \<Longrightarrow>
   cid \<in> dom (active_challenges (engine_step e call))"
proof (cases call)
  case (Generate d)
  assume "cid \<in> dom (active_challenges e)"
  with Generate show ?thesis by (auto simp: generate_active)
next
  case (Validate cid' rd k1 k2)
  assume "cid \<in> dom (active_challenges e)" "\<not> validates cid call"
  with Validate show ?thesis by (auto simp: validate_other)
qed

lemma run_keeps_present:
  "cid \<in> dom (active_challenges e) \<Longrightarrow> \<forall>call\<in>set calls. \<not> validates cid call \<Longrightarrow>
   cid \<in> dom (active_challenges (engine_run e calls))"
proof (induction calls arbitrary: e)
  case Nil
  then show ?case by simp
next
  case (Cons call calls)
  have "cid \<in> dom (active_challenges (engine_step e call))"
    using Cons.prems by (intro step_keeps_present) simp_all
  then show ?case using Cons by simp
qed

subsection \<open>A schedule of validations of one id\<close>

lemma validate_all_absent:
  "active_challenges e cid = None \<Longrightarrow>
   validate_all e cid calls = (e, replicate (length calls) not_found_result)"
  by (induction calls) (auto simp: validate_missing)

lemma validate_all_present:
  assumes "active_challenges e cid = Some c"
  shows "validate_all e cid ((rd, k1, k2) # calls) =
     (fst (validate_challenge_response e cid rd k1 k2),
      snd (validate_challenge_response e cid rd k1 k2) # replicate (length calls) not_found_result)"
proof -
  obtain e' r where v: "validate_challenge_response e cid rd k1 k2 = (e', r)"
    by (cases "validate_challenge_response e cid rd k1 k2")
  have "active_challenges (fst (validate_challenge_response e cid rd k1 k2)) cid = None"
    by (rule validate_removes)
  with v have "active_challenges e' cid = None" by simp
  then have "validate_all e' cid calls = (e', replicate (length calls) not_found_result)"
    by (rule validate_all_absent)
  with v show ?thesis by simp
qed

subsection \<open>The two paths of \<^verbatim>\<open>calculate_trust_score\<close>\<close>

lemma trust_state_score:
  "base_draw env = Inr k1 \<Longrightarrow>
   TrustCalculator.current_score (fst (calculate_trust_score self env bd)) =
     0.7 * TrustCalculator.current_score self + 0.3 * uniform 70 90 k1"
  by (simp add: calculate_trust_score_def calculate_trust_score_body_def Let_def
      split: sum.splits prod.splits)

lemma trust_normal_result:
  assumes "base_draw env = Inr k1" "device_draw env = Inr k2"
    "trust_confidence_draw env = Inr k3" "trust_time env = Inr t"
  shows "snd (calculate_trust_score self env bd) =
     (let v = 0.7 * TrustCalculator.current_score self + 0.3 * uniform 70 90 k1
      in \<lparr>TrustScore.current_score = py_round v 1,
          trust_level =
            (if 85 \<le> v then ''HIGH'' else if 65 \<le> v then ''MEDIUM'' else ''LOW''),
          risk_factors =
            (if v < 80 then
               (if py_random k2 < 0.2
                then [''Behavioral pattern variation detected'', ''New device fingerprint'']
                else [''Behavioral pattern variation detected''])
             else
               (if py_random k2 < 0.2 then [''New device fingerprint'']
                else [''All metrics within normal range''])),
          TrustScore.confidence = uniform 0.8 0.95 k3,
          recommended_action =
            (if 85 \<le> v then ''ALLOW_SEAMLESS''
             else if 65 \<le> v then ''ALLOW_WITH_MONITORING''
             else ''REQUIRE_ADDITIONAL_VERIFICATION''),
          TrustScore.timestamp = t\<rparr>)"
  using assms
  by (simp add: calculate_trust_score_def calculate_trust_score_body_def Let_def)

lemma trust_fault_result:
  "trust_env_raises env \<Longrightarrow>
   snd (calculate_trust_score self env bd) = fallback_TrustScore (trust_handler_time env)"
  by (auto simp: trust_env_raises_def calculate_trust_score_def calculate_trust_score_body_def
      Let_def isl_def split: sum.splits prod.splits)

lemma trust_env_normal:
  assumes "\<not> trust_env_raises env"
  obtains k1 k2 k3 t where "base_draw env = Inr k1" "device_draw env = Inr k2"
    "trust_confidence_draw env = Inr k3" "trust_time env = Inr t"
proof -
  from assms have "\<not> isl (base_draw env)" "\<not> isl (device_draw env)"
    "\<not> isl (trust_confidence_draw env)" "\<not> isl (trust_time env)"
    by (simp_all add: trust_env_raises_def)
  then have "base_draw env = Inr (projr (base_draw env))"
    "device_draw env = Inr (projr (device_draw env))"
    "trust_confidence_draw env = Inr (projr (trust_confidence_draw env))"
    "trust_time env = Inr (projr (trust_time env))"
    by simp_all
  then show thesis by (rule that)
qed

lemma normal_env_normal: "\<not> trust_env_raises (normal_env k1 k2 k3 t)"
  by (simp add: trust_env_raises_def normal_env_def)

subsection \<open>The double computation from the initial score at one draw\<close>

lemma double_literal_07: "round_double 0.7 = 3152519739159347/4503599627370496"
  by (simp add: round_double_def ilog2_def pow2_def round_half_even_def Let_def)

lemma double_literal_03: "round_double 0.3 = 5404319552844595/18014398509481984"
  by (simp add: round_double_def ilog2_def pow2_def round_half_even_def Let_def)

lemma double_width_20: "round_double (90 - 70) = 20"
  by (simp add: round_double_def ilog2_def pow2_def round_half_even_def Let_def)

lemma draw_at_counterexample: "py_random 75059993789511 = 75059993789511 / 9007199254740992"
  by (simp add: py_random_def)

lemma double_scaled_draw: "round_double (20 * (75059993789511 / 9007199254740992)) = 375299968947555/2251799813685248"
  by (simp add: round_double_def ilog2_def pow2_def round_half_even_def Let_def)

lemma double_sample: "double_uniform 70 90 75059993789511 = 4937540216466091/70368744177664"
  unfolding double_uniform_def double_width_20 draw_at_counterexample double_scaled_draw by (simp add: round_double_def ilog2_def pow2_def round_half_even_def Let_def)

lemma double_product_07: "round_double (3152519739159347/4503599627370496 * 75) = 105/2"
  by (simp add: round_double_def ilog2_def pow2_def round_half_even_def Let_def)

lemma double_product_03: "round_double (5404319552844595/18014398509481984 * (4937540216466091/70368744177664)) = 5925048259759309/281474976710656"
  by (simp add: round_double_def ilog2_def pow2_def round_half_even_def Let_def)

lemma double_sum: "round_double (105/2 + 5925048259759309/281474976710656) = 5175621134267187/70368744177664"
  by (simp add: round_double_def ilog2_def pow2_def round_half_even_def Let_def)

lemma decimal_of_stored: "py_round (5175621134267187/70368744177664) 1 = 73.5"
  by (simp add: py_round_def round_half_even_def Let_def)

lemma double_of_decimal: "round_double 73.5 = 73.5"
  by (simp add: round_double_def ilog2_def pow2_def round_half_even_def Let_def)

lemma double_score_at_draw: "double_score 75 75059993789511 = (5175621134267187/70368744177664, 73.5)"
  unfolding double_score_def Let_def double_sample double_literal_07 double_literal_03
    double_product_07 double_product_03 double_sum decimal_of_stored double_of_decimal
  by simp

section \<open>The challenge registry\<close>

text \<open>
  Claim C1, with the condition it needs. A challenge is issued by \<^verbatim>\<open>generate_challenge\<close>
  and is then in the active set under its id. The first
  \<^verbatim>\<open>validate_challenge_response\<close> call with that id (no call of the history
  \<open>before\<close> validates it) removes it from the active set whatever the outcome draw
  \<open>k2\<close> is, and returns a result whose \<^verbatim>\<open>valid\<close> field is the drawn outcome and that
  is not the not-found result. After any further history \<open>later\<close> in which no
  \<^verbatim>\<open>generate_challenge\<close> call issues the same id again, a validation with that id
  returns the not-found result and leaves the engine as it is.
\<close>

theorem validate_consumes_challenge:
  assumes first: "\<forall>call\<in>set before. \<not> validates (new_challenge_id d) call"
    and fresh: "\<forall>call\<in>set later. \<not> issues (new_challenge_id d) call"
  shows "let issued = generate_challenge e0 d;
             cid = challenge_id (snd issued);
             once = validate_challenge_response (engine_run (fst issued) before) cid rd k1 k2;
             again = validate_challenge_response (engine_run (fst once) later) cid rd' k1' k2'
         in active_challenges (fst issued) cid = Some (snd issued)
            \<and> active_challenges (fst once) cid = None
            \<and> map_of (snd once) ''valid'' = Some (PBool (0.1 < py_random k2))
            \<and> snd once \<noteq> not_found_result
            \<and> snd again = not_found_result
            \<and> fst again = engine_run (fst once) later"
proof -
  define issued where "issued = generate_challenge e0 d"
  define cid where "cid = challenge_id (snd issued)"
  define e1 where "e1 = engine_run (fst issued) before"
  define once where "once = validate_challenge_response e1 cid rd k1 k2"
  define e2 where "e2 = engine_run (fst once) later"
  define again where "again = validate_challenge_response e2 cid rd' k1' k2'"
  have cid: "cid = new_challenge_id d"
    by (simp add: cid_def issued_def generate_id)
  have a: "active_challenges (fst issued) cid = Some (snd issued)"
    by (simp add: issued_def generate_active cid)
  then have "cid \<in> dom (active_challenges (fst issued))" by blast
  then have "cid \<in> dom (active_challenges e1)"
    unfolding e1_def using first cid by (intro run_keeps_present) simp_all
  then obtain c where c: "active_challenges e1 cid = Some c" by blast
  have b: "active_challenges (fst once) cid = None"
    by (simp add: once_def validate_removes)
  have r: "snd once =
     [(''valid'', PBool (0.1 < py_random k2)),
      (''confidence'', PFloat (uniform 0.8 0.95 k1)),
      (''challenge_type'', PStr (ChallengeType_value (challenge_type c))),
      (''biometric_signals'',
         PDict [(''voice_detected'', PBool True), (''face_movement'', PBool True),
                (''timing_natural'', PBool True)]),
      (''anomalies'',
         PList (if 0.1 < py_random k2 then [] else [PStr ''Suspicious timing pattern'']))]"
    unfolding once_def by (rule validate_found_result [OF c])
  have v: "map_of (snd once) ''valid'' = Some (PBool (0.1 < py_random k2))"
    by (simp add: r)
  have n: "snd once \<noteq> not_found_result"
    by (simp add: r not_found_result_def)
  have "active_challenges e2 cid = None"
    unfolding e2_def using b fresh cid by (intro run_keeps_absent) simp_all
  then have g: "again = (e2, not_found_result)"
    unfolding again_def by (rule validate_missing)
  show ?thesis
    using a b v n g
    by (simp add: Let_def issued_def [symmetric] cid_def [symmetric] e1_def [symmetric]
        once_def [symmetric] e2_def [symmetric] again_def [symmetric])
qed

theorem validate_consumes_challenge_witness:
  "\<not> validates (new_challenge_id (draws_of 1700000000 234)) (Validate ''dbi_5_1007'' [] 0 0)
   \<and> \<not> validates (new_challenge_id (draws_of 1700000000 234)) (Generate (draws_of 5 7))
   \<and> \<not> issues (new_challenge_id (draws_of 1700000000 234))
         (Validate ''dbi_1700000000_1234'' [] 0 0)
   \<and> \<not> issues (new_challenge_id (draws_of 1700000000 234)) (Generate (draws_of 5 7))
   \<and> (let issued = generate_challenge DBIEngine_init (draws_of 1700000000 234);
          cid = challenge_id (snd issued);
          once = validate_challenge_response
                   (engine_run (fst issued) [Validate ''dbi_5_1007'' [] 0 0, Generate (draws_of 5 7)])
                   cid [] 0 0;
          again = validate_challenge_response
                   (engine_run (fst once) [Validate ''dbi_1700000000_1234'' [] 0 0, Generate (draws_of 5 7)])
                   cid [(''answer'', PStr ''x'')] 1 (2 ^ 52)
      in active_challenges (fst issued) cid = Some (snd issued)
         \<and> active_challenges (fst once) cid = None
         \<and> map_of (snd once) ''valid'' = Some (PBool (0.1 < py_random 0))
         \<and> snd once \<noteq> not_found_result
         \<and> snd again = not_found_result
         \<and> fst again = engine_run (fst once) [Validate ''dbi_1700000000_1234'' [] 0 0, Generate (draws_of 5 7)])"
proof -
  have h1: "\<forall>call\<in>set [Validate ''dbi_5_1007'' [] 0 0, Generate (draws_of 5 7)].
      \<not> validates (new_challenge_id (draws_of 1700000000 234)) call"
    by (simp add: draws_of_def new_challenge_id_def str_int_def int_of_float_def randint_def randbelow_def)
  have h2: "\<forall>call\<in>set [Validate ''dbi_1700000000_1234'' [] 0 0, Generate (draws_of 5 7)].
      \<not> issues (new_challenge_id (draws_of 1700000000 234)) call"
    by (simp add: draws_of_def new_challenge_id_def str_int_def int_of_float_def randint_def randbelow_def)
  show ?thesis
    using h1 h2 validate_consumes_challenge [OF h1 h2, of DBIEngine_init "[]" 0 0 "[(''answer'', PStr ''x'')]" 1 "2 ^ 52"]
    by simp
qed

text \<open>
  The condition on \<open>later\<close> cannot be dropped. The id is built from the clock in whole
  seconds and a draw from 9000 values and is stored without a check, so a later
  \<^verbatim>\<open>generate_challenge\<close> call can issue the id of a consumed challenge again; the next
  validation with that id then returns a pass/fail result, not the not-found result.
\<close>

theorem reissued_id_validated_again_counterexample:
  "new_challenge_id (draws_of 5 7) = ''dbi_5_1007''
   \<and> snd (validate_challenge_response
            (fst (generate_challenge DBIEngine_init (draws_of 5 7))) ''dbi_5_1007'' [] 0 0)
        \<noteq> not_found_result
   \<and> snd (validate_challenge_response
            (engine_run DBIEngine_init
               [Generate (draws_of 5 7), Validate ''dbi_5_1007'' [] 0 0, Generate (draws_of 5 7)])
            ''dbi_5_1007'' [] 0 0)
        \<noteq> not_found_result
   \<and> map_of (snd (validate_challenge_response
            (engine_run DBIEngine_init
               [Generate (draws_of 5 7), Validate ''dbi_5_1007'' [] 0 0, Generate (draws_of 5 7)])
            ''dbi_5_1007'' [] 0 (2 ^ 52))) ''valid'' = Some (PBool True)"
proof -
  have i: "new_challenge_id (draws_of 5 7) = ''dbi_5_1007''"
    by (simp add: draws_of_def new_challenge_id_def str_int_def int_of_float_def randint_def
        randbelow_def)
  have a1: "active_challenges (fst (generate_challenge DBIEngine_init (draws_of 5 7))) ''dbi_5_1007''
      = Some (snd (generate_challenge DBIEngine_init (draws_of 5 7)))"
    by (simp add: generate_active i)
  have a2: "active_challenges (engine_run DBIEngine_init
               [Generate (draws_of 5 7), Validate ''dbi_5_1007'' [] 0 0, Generate (draws_of 5 7)])
             ''dbi_5_1007''
      = Some (snd (generate_challenge
            (fst (validate_challenge_response (fst (generate_challenge DBIEngine_init (draws_of 5 7)))
               ''dbi_5_1007'' [] 0 0)) (draws_of 5 7)))"
    by (simp add: generate_active i)
  have p: "py_random (2 ^ 52) = 1 / 2"
    by (simp add: py_random_def)
  show ?thesis
    unfolding validate_found_result [OF a1] validate_found_result [OF a2] p
    using i by (simp add: not_found_result_def)
qed



text \<open>
  Claim C4. When the id is in the active set, the result carries exactly the five keys of the
  source; its confidence is the draw from \<open>[0.80, 0.95]\<close>, \<^verbatim>\<open>valid\<close> is true exactly
  when the outcome draw exceeds \<open>0.1\<close>, the challenge type is that of the challenge found,
  the three biometric signals are all true, and \<^verbatim>\<open>anomalies\<close> is empty when valid and
  the single entry \<^verbatim>\<open>Suspicious timing pattern\<close> otherwise.
\<close>

theorem validate_found_fields:
  assumes "active_challenges e cid = Some c"
  shows "let r = snd (validate_challenge_response e cid rd k1 k2);
             valid = (0.1 < py_random k2)
         in map fst r = [''valid'', ''confidence'', ''challenge_type'', ''biometric_signals'', ''anomalies'']
            \<and> map_of r ''confidence'' = Some (PFloat (uniform 0.8 0.95 k1))
            \<and> 0.8 \<le> uniform 0.8 0.95 k1 \<and> uniform 0.8 0.95 k1 \<le> 0.95
            \<and> map_of r ''valid'' = Some (PBool valid)
            \<and> map_of r ''challenge_type'' = Some (PStr (ChallengeType_value (challenge_type c)))
            \<and> map_of r ''biometric_signals'' =
                Some (PDict [(''voice_detected'', PBool True), (''face_movement'', PBool True),
                             (''timing_natural'', PBool True)])
            \<and> map_of r ''anomalies'' =
                Some (PList (if valid then [] else [PStr ''Suspicious timing pattern'']))"
proof -
  have "(0.8::real) \<le> 0.95" by simp
  then have "0.8 \<le> uniform 0.8 0.95 k1 \<and> uniform 0.8 0.95 k1 \<le> 0.95"
    by (rule uniform_bounds)
  then show ?thesis
    by (simp add: validate_found_result [OF assms] Let_def)
qed

theorem validate_found_fields_witness:
  "(let e = fst (generate_challenge DBIEngine_init (draws_of 5 7));
        r = snd (validate_challenge_response e ''dbi_5_1007'' [] 0 0)
    in active_challenges e ''dbi_5_1007'' = Some (snd (generate_challenge DBIEngine_init (draws_of 5 7)))
       \<and> map_of r ''confidence'' = Some (PFloat 0.8)
       \<and> map_of r ''valid'' = Some (PBool False)
       \<and> map_of r ''challenge_type'' = Some (PStr ''environmental_check'')
       \<and> map_of r ''anomalies'' = Some (PList [PStr ''Suspicious timing pattern'']))
   \<and> (let e = fst (generate_challenge DBIEngine_init (draws_of 5 7));
        r = snd (validate_challenge_response e ''dbi_5_1007'' [] (2 ^ 52) (2 ^ 52))
    in map_of r ''confidence'' = Some (PFloat 0.875)
       \<and> map_of r ''valid'' = Some (PBool True)
       \<and> map_of r ''anomalies'' = Some (PList []))"
proof -
  define e where "e = fst (generate_challenge DBIEngine_init (draws_of 5 7))"
  have a: "active_challenges e ''dbi_5_1007'' = Some (snd (generate_challenge DBIEngine_init (draws_of 5 7)))"
    by (simp add: e_def generate_active draws_of_def new_challenge_id_def str_int_def
        int_of_float_def randint_def randbelow_def)
  have t: "challenge_type (snd (generate_challenge DBIEngine_init (draws_of 5 7))) = ENVIRONMENTAL_CHECK"
    by (simp add: generate_challenge_def Let_def draws_of_def choice_def randbelow_def
        ChallengeType_members_def)
  have p0: "py_random 0 = 0" and p1: "py_random (2 ^ 52) = 1 / 2"
    by (simp_all add: py_random_def)
  have u0: "uniform 0.8 0.95 0 = 0.8"
    by (simp add: uniform_def py_random_def)
  have u1: "uniform 0.8 0.95 (2 ^ 52) = 0.875"
    by (simp add: uniform_def py_random_def)
  show ?thesis
    using a validate_found_fields [OF a, of "[]" 0 0]
      validate_found_fields [OF a, of "[]" "2 ^ 52" "2 ^ 52"]
    unfolding Let_def e_def [symmetric] t u0 u1 p0 p1 by simp
qed

text \<open>
  Claim C8. The result of \<^verbatim>\<open>process_frame\<close> does not depend on \<^verbatim>\<open>frame_data\<close>, and
  the result and the new state of \<^verbatim>\<open>validate_challenge_response\<close> do not depend on
  \<^verbatim>\<open>response_data\<close>: with the same object, the same draws and the same clock, two
  payloads give equal outputs.
\<close>

theorem payload_noninterference:
  "process_frame self env frame_data = process_frame self env frame_data'
   \<and> validate_challenge_response e cid response_data k1 k2
       = validate_challenge_response e cid response_data' k1 k2"
  by (simp add: process_frame_def validate_challenge_response_def)

text \<open>
  Claim C9. \<open>N\<close> concurrent validations of one id that is in the active set, run in
  any order as whole calls, give exactly one result that is not the not-found result and
  \<open>N - 1\<close> not-found results; the winner is the call that runs first, and the id is
  gone afterwards. The check and the removal exclude each other because a call never
  suspends between them; the source holds no lock object.
\<close>

theorem concurrent_validations_one_winner:
  assumes "cid \<in> dom (active_challenges e)" and "calls \<noteq> []"
  shows "let results = snd (validate_all e cid calls)
         in length results = length calls
            \<and> length (filter (\<lambda>r. r \<noteq> not_found_result) results) = 1
            \<and> length (filter (\<lambda>r. r = not_found_result) results) = length calls - 1
            \<and> hd results \<noteq> not_found_result
            \<and> active_challenges (fst (validate_all e cid calls)) cid = None"
proof -
  from assms(1) obtain c where c: "active_challenges e cid = Some c" by blast
  from assms(2) obtain rd k1 k2 rest where calls: "calls = (rd, k1, k2) # rest"
    by (cases calls) auto
  have w: "snd (validate_challenge_response e cid rd k1 k2) \<noteq> not_found_result"
    by (simp add: validate_found_result [OF c] not_found_result_def)
  have n: "active_challenges (fst (validate_challenge_response e cid rd k1 k2)) cid = None"
    by (rule validate_removes)
  show ?thesis
    unfolding calls validate_all_present [OF c] Let_def
    using w n by simp
qed

theorem concurrent_validations_one_winner_witness:
  "''dbi_5_1007'' \<in> dom (active_challenges (fst (generate_challenge DBIEngine_init (draws_of 5 7))))
   \<and> [([], 0, 0), ([(''answer'', PStr ''x'')], 1, 2 ^ 52), ([], 2, 3)]
        \<noteq> ([] :: (pydict \<times> nat \<times> nat) list)
   \<and> (let results = snd (validate_all (fst (generate_challenge DBIEngine_init (draws_of 5 7)))
            ''dbi_5_1007'' [([], 0, 0), ([(''answer'', PStr ''x'')], 1, 2 ^ 52), ([], 2, 3)])
      in length results = 3
         \<and> length (filter (\<lambda>r. r \<noteq> not_found_result) results) = 1
         \<and> length (filter (\<lambda>r. r = not_found_result) results) = 2
         \<and> hd results \<noteq> not_found_result)"
proof -
  have d: "''dbi_5_1007'' \<in> dom (active_challenges (fst (generate_challenge DBIEngine_init (draws_of 5 7))))"
    by (simp add: domIff generate_active draws_of_def new_challenge_id_def str_int_def
        int_of_float_def randint_def randbelow_def)
  have n: "[([], 0, 0), ([(''answer'', PStr ''x'')], 1, 2 ^ 52), ([], 2, 3)]
      \<noteq> ([] :: (pydict \<times> nat \<times> nat) list)"
    by simp
  show ?thesis
    using d concurrent_validations_one_winner [OF d n]
    by (simp add: Let_def)
qed

section \<open>The trust score\<close>



text \<open>
  Claim C5. On the normal path the level and the recommended action follow the updated
  score \<open>v\<close>: \<open>v \<ge> 85\<close> gives HIGH and ALLOW_SEAMLESS, \<open>65 \<le> v < 85\<close> gives MEDIUM and
  ALLOW_WITH_MONITORING, \<open>v < 65\<close> gives LOW and REQUIRE_ADDITIONAL_VERIFICATION.
\<close>

theorem trust_level_thresholds:
  assumes "\<not> trust_env_raises env"
  shows "let res = calculate_trust_score self env bd;
             v = TrustCalculator.current_score (fst res);
             r = snd res
         in (85 \<le> v \<longrightarrow> trust_level r = ''HIGH'' \<and> recommended_action r = ''ALLOW_SEAMLESS'')
          \<and> (65 \<le> v \<and> v < 85 \<longrightarrow>
               trust_level r = ''MEDIUM'' \<and> recommended_action r = ''ALLOW_WITH_MONITORING'')
          \<and> (v < 65 \<longrightarrow>
               trust_level r = ''LOW'' \<and> recommended_action r = ''REQUIRE_ADDITIONAL_VERIFICATION'')"
proof -
  from assms obtain k1 k2 k3 t where e: "base_draw env = Inr k1" "device_draw env = Inr k2"
    "trust_confidence_draw env = Inr k3" "trust_time env = Inr t"
    by (rule trust_env_normal)
  show ?thesis
    by (simp add: Let_def trust_state_score [OF e(1)] trust_normal_result [OF e])
qed

theorem trust_level_thresholds_witness:
  "\<not> trust_env_raises (normal_env 0 0 0 0)
   \<and> (let r = snd (calculate_trust_score \<lparr>TrustCalculator.current_score = 95, score_history = []\<rparr>
                    (normal_env 0 0 0 0) [])
      in trust_level r = ''HIGH'' \<and> recommended_action r = ''ALLOW_SEAMLESS'')
   \<and> (let r = snd (calculate_trust_score TrustCalculator_init (normal_env 0 0 0 0) [])
      in trust_level r = ''MEDIUM'' \<and> recommended_action r = ''ALLOW_WITH_MONITORING'')
   \<and> (let r = snd (calculate_trust_score \<lparr>TrustCalculator.current_score = 50, score_history = []\<rparr>
                    (normal_env 0 0 0 0) [])
      in trust_level r = ''LOW'' \<and> recommended_action r = ''REQUIRE_ADDITIONAL_VERIFICATION'')"
proof -
  have h: "\<not> trust_env_raises (normal_env 0 0 0 0)"
    by (rule normal_env_normal)
  have b: "base_draw (normal_env 0 0 0 0) = Inr 0"
    by (simp add: normal_env_def)
  have u: "uniform 70 90 0 = 70"
    by (simp add: uniform_def py_random_def)
  have p: "TrustCalculator.current_score TrustCalculator_init = 75"
    by (simp add: TrustCalculator_init_def)
  show ?thesis
    using h
      trust_level_thresholds [OF h, of "\<lparr>TrustCalculator.current_score = 95, score_history = []\<rparr>" "[]"]
      trust_level_thresholds [OF h, of TrustCalculator_init "[]"]
      trust_level_thresholds [OF h, of "\<lparr>TrustCalculator.current_score = 50, score_history = []\<rparr>" "[]"]
    unfolding Let_def trust_state_score [OF b] u p by simp
qed

text \<open>
  Claim C6. The list of risk factors is never empty, on the normal path and on the fallback
  path, where it is the single entry \<^verbatim>\<open>System error\<close>. On the normal path it contains
  the behavioural entry exactly when the updated score is below 80, the device entry exactly
  when the device draw is below \<open>0.2\<close>, and it is the single entry
  \<^verbatim>\<open>All metrics within normal range\<close> exactly when neither was triggered.
\<close>

theorem risk_factors_never_empty:
  "let res = calculate_trust_score self env bd;
       v = TrustCalculator.current_score (fst res);
       fs = risk_factors (snd res)
   in fs \<noteq> []
      \<and> (trust_env_raises env \<longrightarrow> fs = [''System error''])
      \<and> (\<forall>k2. \<not> trust_env_raises env \<and> device_draw env = Inr k2 \<longrightarrow>
            (''Behavioral pattern variation detected'' \<in> set fs \<longleftrightarrow> v < 80)
          \<and> (''New device fingerprint'' \<in> set fs \<longleftrightarrow> py_random k2 < 0.2)
          \<and> (fs = [''All metrics within normal range''] \<longleftrightarrow> \<not> v < 80 \<and> \<not> py_random k2 < 0.2)
          \<and> fs = (if v < 80 \<or> py_random k2 < 0.2
                   then (if v < 80 then [''Behavioral pattern variation detected''] else [])
                        @ (if py_random k2 < 0.2 then [''New device fingerprint''] else [])
                   else [''All metrics within normal range'']))"
proof (cases "trust_env_raises env")
  case True
  then show ?thesis
    by (simp add: Let_def trust_fault_result fallback_TrustScore_def)
next
  case False
  then obtain k1 k2 k3 t where e: "base_draw env = Inr k1" "device_draw env = Inr k2"
    "trust_confidence_draw env = Inr k3" "trust_time env = Inr t"
    by (rule trust_env_normal)
  show ?thesis
    using False
    by (simp add: Let_def trust_state_score [OF e(1)] trust_normal_result [OF e] e(2))
qed

theorem risk_factors_never_empty_witness:
  "\<not> trust_env_raises (normal_env 0 0 0 0) \<and> device_draw (normal_env 0 0 0 0) = Inr 0
   \<and> risk_factors (snd (calculate_trust_score TrustCalculator_init (normal_env 0 0 0 0) []))
       = [''Behavioral pattern variation detected'', ''New device fingerprint'']
   \<and> \<not> trust_env_raises (normal_env 0 (2 ^ 52) 0 0)
   \<and> device_draw (normal_env 0 (2 ^ 52) 0 0) = Inr (2 ^ 52)
   \<and> risk_factors (snd (calculate_trust_score
        \<lparr>TrustCalculator.current_score = 90, score_history = []\<rparr> (normal_env 0 (2 ^ 52) 0 0) []))
       = [''All metrics within normal range'']
   \<and> trust_env_raises faulty_env
   \<and> risk_factors (snd (calculate_trust_score TrustCalculator_init faulty_env [])) = [''System error'']"
proof -
  have n1: "\<not> trust_env_raises (normal_env 0 0 0 0)"
    and n2: "\<not> trust_env_raises (normal_env 0 (2 ^ 52) 0 0)"
    by (simp_all add: trust_env_raises_def normal_env_def)
  have d1: "device_draw (normal_env 0 0 0 0) = Inr 0"
    and d2: "device_draw (normal_env 0 (2 ^ 52) 0 0) = Inr (2 ^ 52)"
    and b1: "base_draw (normal_env 0 0 0 0) = Inr 0"
    and b2: "base_draw (normal_env 0 (2 ^ 52) 0 0) = Inr 0"
    by (simp_all add: normal_env_def)
  have f: "trust_env_raises faulty_env"
    by (simp add: trust_env_raises_def faulty_env_def)
  have u: "uniform 70 90 0 = 70"
    by (simp add: uniform_def py_random_def)
  have v1: "TrustCalculator.current_score
       (fst (calculate_trust_score TrustCalculator_init (normal_env 0 0 0 0) [])) = 73.5"
    by (simp add: trust_state_score [OF b1] u TrustCalculator_init_def)
  have v2: "TrustCalculator.current_score
       (fst (calculate_trust_score \<lparr>TrustCalculator.current_score = 90, score_history = []\<rparr>
          (normal_env 0 (2 ^ 52) 0 0) [])) = 84"
    unfolding trust_state_score [OF b2] u by simp
  have r1: "risk_factors (snd (calculate_trust_score TrustCalculator_init (normal_env 0 0 0 0) []))
       = [''Behavioral pattern variation detected'', ''New device fingerprint'']"
    using risk_factors_never_empty [of TrustCalculator_init "normal_env 0 0 0 0" "[]"] n1 d1
    unfolding Let_def v1 by (simp add: py_random_def)
  have r2: "risk_factors (snd (calculate_trust_score
        \<lparr>TrustCalculator.current_score = 90, score_history = []\<rparr> (normal_env 0 (2 ^ 52) 0 0) []))
       = [''All metrics within normal range'']"
    using risk_factors_never_empty [of "\<lparr>TrustCalculator.current_score = 90, score_history = []\<rparr>"
        "normal_env 0 (2 ^ 52) 0 0" "[]"] n2 d2
    unfolding Let_def v2 by (simp add: py_random_def)
  have r3: "risk_factors (snd (calculate_trust_score TrustCalculator_init faulty_env [])) = [''System error'']"
    using risk_factors_never_empty [of TrustCalculator_init faulty_env "[]"] f
    unfolding Let_def by simp
  show ?thesis
    using n1 n2 d1 d2 f r1 r2 r3 by simp
qed

text \<open>
  Claim C7. When a call inside the \<^verbatim>\<open>try\<close> block raises, the method still returns:
  its result is the fixed fallback score (value 50, MEDIUM, \<^verbatim>\<open>System error\<close>,
  confidence 0, REQUIRE_MANUAL_REVIEW). When no call raises, the body itself returns a
  result, that result is what the method returns, and it is not the fallback.
\<close>

theorem trust_fault_fallback:
  "(trust_env_raises env \<longrightarrow>
      snd (calculate_trust_score self env bd) =
        \<lparr>TrustScore.current_score = 50, trust_level = ''MEDIUM'',
         risk_factors = [''System error''], TrustScore.confidence = 0,
         recommended_action = ''REQUIRE_MANUAL_REVIEW'',
         TrustScore.timestamp = trust_handler_time env\<rparr>)
   \<and> (\<not> trust_env_raises env \<longrightarrow>
        snd (calculate_trust_score_body self env) = Inr (snd (calculate_trust_score self env bd))
        \<and> recommended_action (snd (calculate_trust_score self env bd)) \<noteq> ''REQUIRE_MANUAL_REVIEW'')"
proof (intro conjI impI)
  assume "trust_env_raises env"
  then show "snd (calculate_trust_score self env bd) =
        \<lparr>TrustScore.current_score = 50, trust_level = ''MEDIUM'',
         risk_factors = [''System error''], TrustScore.confidence = 0,
         recommended_action = ''REQUIRE_MANUAL_REVIEW'',
         TrustScore.timestamp = trust_handler_time env\<rparr>"
    by (simp add: trust_fault_result fallback_TrustScore_def)
next
  assume "\<not> trust_env_raises env"
  then obtain k1 k2 k3 t where e: "base_draw env = Inr k1" "device_draw env = Inr k2"
    "trust_confidence_draw env = Inr k3" "trust_time env = Inr t"
    by (rule trust_env_normal)
  show "snd (calculate_trust_score_body self env) = Inr (snd (calculate_trust_score self env bd))"
    using e
    by (simp add: calculate_trust_score_def calculate_trust_score_body_def Let_def)
  show "recommended_action (snd (calculate_trust_score self env bd)) \<noteq> ''REQUIRE_MANUAL_REVIEW''"
    by (simp add: Let_def trust_normal_result [OF e])
qed

theorem trust_fault_fallback_witness:
  "trust_env_raises faulty_env
   \<and> calculate_trust_score TrustCalculator_init faulty_env [] =
       (\<lparr>TrustCalculator.current_score = 73.5, score_history = []\<rparr>,
        \<lparr>TrustScore.current_score = 50, trust_level = ''MEDIUM'',
         risk_factors = [''System error''], TrustScore.confidence = 0,
         recommended_action = ''REQUIRE_MANUAL_REVIEW'', TrustScore.timestamp = 1\<rparr>)
   \<and> \<not> trust_env_raises (normal_env 0 0 0 0)
   \<and> recommended_action (snd (calculate_trust_score TrustCalculator_init (normal_env 0 0 0 0) []))
       \<noteq> ''REQUIRE_MANUAL_REVIEW''"
proof -
  have f: "trust_env_raises faulty_env"
    by (simp add: trust_env_raises_def faulty_env_def)
  have n: "\<not> trust_env_raises (normal_env 0 0 0 0)"
    by (simp add: trust_env_raises_def normal_env_def)
  have b: "base_draw faulty_env = Inr 0" and h: "trust_handler_time faulty_env = 1"
    by (simp_all add: faulty_env_def)
  have u: "uniform 70 90 0 = 70"
    by (simp add: uniform_def py_random_def)
  have s: "fst (calculate_trust_score TrustCalculator_init faulty_env []) =
      \<lparr>TrustCalculator.current_score = 73.5, score_history = []\<rparr>"
    by (simp add: calculate_trust_score_def calculate_trust_score_body_def faulty_env_def
        Let_def u TrustCalculator_init_def)
  have r: "snd (calculate_trust_score TrustCalculator_init faulty_env []) =
      \<lparr>TrustScore.current_score = 50, trust_level = ''MEDIUM'',
         risk_factors = [''System error''], TrustScore.confidence = 0,
         recommended_action = ''REQUIRE_MANUAL_REVIEW'', TrustScore.timestamp = 1\<rparr>"
    using trust_fault_fallback [of faulty_env TrustCalculator_init "[]"] f h by simp
  have a: "recommended_action (snd (calculate_trust_score TrustCalculator_init (normal_env 0 0 0 0) []))
       \<noteq> ''REQUIRE_MANUAL_REVIEW''"
    using trust_fault_fallback [of "normal_env 0 0 0 0" TrustCalculator_init "[]"] n by simp
  show ?thesis
    using f n a s r by (simp add: prod_eq_iff)
qed

text \<open>
  Claim C10, stated against the stored score. On the normal path the
  \<^verbatim>\<open>current_score\<close> field of the returned score is the stored score rounded to one
  decimal, so it is within \<open>0.05\<close> of the stored score, which itself stays unrounded. The
  same holds of the double computation: the returned double is the nearest double to the
  one-decimal rounding of the stored double, and that rounding is within \<open>0.05\<close> of the
  stored double. Two successive calls from the initial calculator show that the returned
  values do not satisfy the recurrence themselves: the calculator keeps 73.875 and returns
  73.9, then returns 72.7, which is not \<open>0.7 * 73.9 + 0.3 * 70\<close>.
\<close>

theorem returned_score_rounds_stored:
  "(\<not> trust_env_raises env \<longrightarrow>
      (let res = calculate_trust_score self env bd;
           stored = TrustCalculator.current_score (fst res);
           returned = TrustScore.current_score (snd res)
       in returned = py_round stored 1 \<and> \<bar>returned - stored\<bar> \<le> 0.05))
   \<and> (let stored = fst (double_score p k); returned = snd (double_score p k)
      in returned = round_double (py_round stored 1) \<and> \<bar>py_round stored 1 - stored\<bar> \<le> 0.05)
   \<and> (let first = calculate_trust_score TrustCalculator_init (normal_env (2 ^ 49) 0 0 0) [];
          second = calculate_trust_score (fst first) (normal_env 0 0 0 0) []
      in TrustCalculator.current_score (fst first) = 73.875
         \<and> TrustScore.current_score (snd first) = 73.9
         \<and> TrustScore.current_score (snd second) = 72.7
         \<and> TrustScore.current_score (snd second)
             \<noteq> 0.7 * TrustScore.current_score (snd first) + 0.3 * uniform 70 90 0)"
proof (intro conjI impI)
  assume "\<not> trust_env_raises env"
  then obtain k1 k2 k3 t where e: "base_draw env = Inr k1" "device_draw env = Inr k2"
    "trust_confidence_draw env = Inr k3" "trust_time env = Inr t"
    by (rule trust_env_normal)
  show "let res = calculate_trust_score self env bd;
           stored = TrustCalculator.current_score (fst res);
           returned = TrustScore.current_score (snd res)
       in returned = py_round stored 1 \<and> \<bar>returned - stored\<bar> \<le> 0.05"
    using py_round_1_near [of "0.7 * TrustCalculator.current_score self + 0.3 * uniform 70 90 k1"]
    by (simp add: Let_def trust_state_score [OF e(1)] trust_normal_result [OF e])
next
  show "let stored = fst (double_score p k); returned = snd (double_score p k)
      in returned = round_double (py_round stored 1) \<and> \<bar>py_round stored 1 - stored\<bar> \<le> 0.05"
    using py_round_1_near [of "fst (double_score p k)"]
    by (simp add: Let_def double_score_def)
next
  define first where "first = calculate_trust_score TrustCalculator_init (normal_env (2 ^ 49) 0 0 0) []"
  define second where "second = calculate_trust_score (fst first) (normal_env 0 0 0 0) []"
  have e1: "base_draw (normal_env (2 ^ 49) 0 0 0) = Inr (2 ^ 49)"
    "device_draw (normal_env (2 ^ 49) 0 0 0) = Inr 0"
    "trust_confidence_draw (normal_env (2 ^ 49) 0 0 0) = Inr 0"
    "trust_time (normal_env (2 ^ 49) 0 0 0) = Inr 0"
    by (simp_all add: normal_env_def)
  have e2: "base_draw (normal_env 0 0 0 0) = Inr 0"
    "device_draw (normal_env 0 0 0 0) = Inr 0"
    "trust_confidence_draw (normal_env 0 0 0 0) = Inr 0"
    "trust_time (normal_env 0 0 0 0) = Inr 0"
    by (simp_all add: normal_env_def)
  have u1: "uniform 70 90 (2 ^ 49) = 71.25" and u2: "uniform 70 90 0 = 70"
    by (simp_all add: uniform_def py_random_def)
  have s1: "TrustCalculator.current_score (fst first) = 73.875"
    unfolding first_def trust_state_score [OF e1(1)] u1
    by (simp add: TrustCalculator_init_def)
  have r1: "TrustScore.current_score (snd first) = 73.9"
    unfolding first_def trust_normal_result [OF e1] Let_def u1
    by (simp add: TrustCalculator_init_def py_round_def round_half_even_def Let_def)
  have r2: "TrustScore.current_score (snd second) = 72.7"
    unfolding second_def trust_normal_result [OF e2] Let_def u2 s1
    by (simp add: py_round_def round_half_even_def Let_def)
  show "let first = calculate_trust_score TrustCalculator_init (normal_env (2 ^ 49) 0 0 0) [];
          second = calculate_trust_score (fst first) (normal_env 0 0 0 0) []
      in TrustCalculator.current_score (fst first) = 73.875
         \<and> TrustScore.current_score (snd first) = 73.9
         \<and> TrustScore.current_score (snd second) = 72.7
         \<and> TrustScore.current_score (snd second)
             \<noteq> 0.7 * TrustScore.current_score (snd first) + 0.3 * uniform 70 90 0"
    unfolding Let_def first_def [symmetric] second_def [symmetric] r1 r2 s1 u2
    by simp
qed

theorem returned_score_rounds_stored_witness:
  "\<not> trust_env_raises (normal_env (2 ^ 49) 0 0 0)
   \<and> TrustCalculator.current_score
        (fst (calculate_trust_score TrustCalculator_init (normal_env (2 ^ 49) 0 0 0) [])) = 73.875
   \<and> TrustScore.current_score
        (snd (calculate_trust_score TrustCalculator_init (normal_env (2 ^ 49) 0 0 0) [])) = 73.9
   \<and> \<bar>(73.9 :: real) - 73.875\<bar> \<le> 0.05"
proof -
  have n: "\<not> trust_env_raises (normal_env (2 ^ 49) 0 0 0)"
    by (simp add: trust_env_raises_def normal_env_def)
  have b: "base_draw (normal_env (2 ^ 49) 0 0 0) = Inr (2 ^ 49)"
    by (simp add: normal_env_def)
  have u: "uniform 70 90 (2 ^ 49) = 71.25"
    by (simp add: uniform_def py_random_def)
  have s: "TrustCalculator.current_score
        (fst (calculate_trust_score TrustCalculator_init (normal_env (2 ^ 49) 0 0 0) [])) = 73.875"
    unfolding trust_state_score [OF b] u by (simp add: TrustCalculator_init_def)
  have r: "py_round 73.875 1 = 73.9"
    by (simp add: py_round_def round_half_even_def Let_def)
  show ?thesis
    using n returned_score_rounds_stored [of "normal_env (2 ^ 49) 0 0 0" TrustCalculator_init "[]"]
    unfolding Let_def s r by simp
qed

text \<open>
  Against the exact recurrence the bound fails in double arithmetic. From the initial score
  75 with the draw \<open>75059993789511 / 2^53\<close> the stored double lies just below 73.55 and
  the returned score is 73.5, while \<open>0.7 * 75 + 0.3 * sample\<close> lies just above 73.55, for
  the sample as a double and for the sample as a real alike.
\<close>

theorem returned_score_exact_bound_counterexample:
  "TrustCalculator.current_score TrustCalculator_init = 75
   \<and> py_random 75059993789511 = 75059993789511 / 2 ^ 53
   \<and> double_uniform 70 90 75059993789511 = 4937540216466091 / 2 ^ 46
   \<and> fst (double_score 75 75059993789511) = 5175621134267187 / 2 ^ 46
   \<and> snd (double_score 75 75059993789511) = 73.5
   \<and> 0.05 < \<bar>snd (double_score 75 75059993789511)
              - (0.7 * 75 + 0.3 * double_uniform 70 90 75059993789511)\<bar>
   \<and> 0.05 < \<bar>snd (double_score 75 75059993789511)
              - (0.7 * 75 + 0.3 * uniform 70 90 75059993789511)\<bar>"
proof -
  have i: "TrustCalculator.current_score TrustCalculator_init = 75"
    by (simp add: TrustCalculator_init_def)
  have u': "uniform 70 90 75059993789511 = 70 + 20 * (75059993789511 / 9007199254740992)"
    unfolding uniform_def draw_at_counterexample by simp
  show ?thesis
    unfolding double_score_at_draw double_sample draw_at_counterexample u' fst_conv snd_conv i
    by simp
qed

end
